theory Spec2Isabelle
  imports Complex_Main "HOL-Library.Word" "HOL-Library.Sublist"
begin

section \<open>Resume text extraction of the ATS job-application page\<close>

text \<open>
  A shallow embedding of the text-extraction pipeline of \<^verbatim>\<open>src/pages/JobDetails.tsx\<close>:
  \<^verbatim>\<open>sanitizeText\<close>, \<^verbatim>\<open>extractTextFromTextFile\<close>, \<^verbatim>\<open>extractTextFromPdfWithOcr\<close>,
  \<^verbatim>\<open>extractTextFromPdf\<close>, \<^verbatim>\<open>extractTextFromWordDocument\<close>, \<^verbatim>\<open>enhanceOcrResultWithAi\<close>,
  \<^verbatim>\<open>handleFileChange\<close> and the part of \<^verbatim>\<open>handleSubmit\<close> that builds the row inserted
  into the \<^verbatim>\<open>applications\<close> table.

  The browser and the libraries the component calls (FileReader, mammoth, Tesseract,
  fetch, Date) are parameters, collected in the record \<open>World\<close>. Asynchronous functions
  are run to completion one after the other; a rejected promise or a thrown exception is
  the \<open>Inl\<close> side of a sum. Toasts, console output and the OCR progress indicator
  (\<^verbatim>\<open>ocrProgress\<close>, \<^verbatim>\<open>isOcrProcessing\<close>) are display only and are left out.
\<close>

subsection \<open>JavaScript strings\<close>

text \<open>
  A JavaScript string is a sequence of UTF-16 code units; \<^verbatim>\<open>length\<close>, \<^verbatim>\<open>substring\<close> and a
  regular expression without the \<^verbatim>\<open>u\<close> flag all work on code units.
\<close>

type_synonym js_char = "16 word"
type_synonym js_string = "js_char list"

text \<open>An ASCII literal of the source as a JavaScript string.\<close>

definition js :: "string \<Rightarrow> js_string" where
  "js s = map of_char s"

text \<open>The character class \<^verbatim>\<open>[\x00-\x1F\x7F-\x9F]\<close>.\<close>

definition is_control :: "js_char \<Rightarrow> bool" where
  "is_control c = (c \<le> 0x1F \<or> (0x7F \<le> c \<and> c \<le> 0x9F))"

text \<open>The pattern \<^verbatim>\<open>\t\<close>.\<close>

definition is_tab :: "js_char \<Rightarrow> bool" where
  "is_tab c = (c = 0x09)"

text \<open>
  The class \<^verbatim>\<open>\s\<close> of ECMAScript: WhiteSpace (TAB, VT, FF, SP, NBSP, ZWNBSP and the
  Unicode space separators) and LineTerminator (LF, CR, LS, PS). \<^verbatim>\<open>String.prototype.trim\<close>
  strips the same set.
\<close>

definition is_whitespace :: "js_char \<Rightarrow> bool" where
  "is_whitespace c =
     (c = 0x09 \<or> c = 0x0A \<or> c = 0x0B \<or> c = 0x0C \<or> c = 0x0D \<or> c = 0x20 \<or> c = 0xA0 \<or>
      c = 0x1680 \<or> (0x2000 \<le> c \<and> c \<le> 0x200A) \<or> c = 0x2028 \<or> c = 0x2029 \<or>
      c = 0x202F \<or> c = 0x205F \<or> c = 0x3000 \<or> c = 0xFEFF)"

text \<open>\<^verbatim>\<open>s.replace(/[class]/g, r)\<close>: every code unit of the class is replaced by \<open>r\<close>.\<close>

definition replace_each :: "(js_char \<Rightarrow> bool) \<Rightarrow> js_string \<Rightarrow> js_string \<Rightarrow> js_string" where
  "replace_each P r s = concat (map (\<lambda>c. if P c then r else [c]) s)"

text \<open>
  \<^verbatim>\<open>s.replace(/[class]+/g, r)\<close>: the matches are the maximal runs of code units of the
  class, from left to right, and each run is replaced by \<open>r\<close>.
\<close>

function replace_runs :: "(js_char \<Rightarrow> bool) \<Rightarrow> js_string \<Rightarrow> js_string \<Rightarrow> js_string" where
  "replace_runs P r [] = []"
| "replace_runs P r (c # cs) =
     (if P c then r @ replace_runs P r (dropWhile P cs) else c # replace_runs P r cs)"
  by pat_completeness auto
termination
  by (relation "measure (\<lambda>(P, r, s). length s)") (auto simp: length_dropWhile_le less_Suc_eq_le)

text \<open>
  \<^verbatim>\<open>s.substring(a, b)\<close> for non-negative integer arguments: the arguments are swapped when
  \<open>a > b\<close> and clamped to the length of the string.
\<close>

definition substring :: "nat \<Rightarrow> nat \<Rightarrow> js_string \<Rightarrow> js_string" where
  "substring a b s = take (max a b - min a b) (drop (min a b) s)"

definition trim :: "js_string \<Rightarrow> js_string" where
  "trim s = rev (dropWhile is_whitespace (rev (dropWhile is_whitespace s)))"

definition startsWith :: "js_string \<Rightarrow> js_string \<Rightarrow> bool" where
  "startsWith s p = (take (length p) s = p)"

definition endsWith :: "js_string \<Rightarrow> js_string \<Rightarrow> bool" where
  "endsWith s p = (length p \<le> length s \<and> drop (length s - length p) s = p)"

text \<open>
  \<^verbatim>\<open>toLowerCase\<close> on the letters A to Z. The source only tests the result with
  \<^verbatim>\<open>endsWith\<close> against the ASCII literals \<^verbatim>\<open>.pdf\<close>, \<^verbatim>\<open>.docx\<close> and \<^verbatim>\<open>.doc\<close>, and no
  code unit outside ASCII is lowered to one of their letters.
\<close>

definition toLowerCase :: "js_string \<Rightarrow> js_string" where
  "toLowerCase s = map (\<lambda>c. if 0x41 \<le> c \<and> c \<le> 0x5A then c + 0x20 else c) s"

text \<open>A non-negative integer in a template literal: its decimal digits.\<close>

fun show_nat :: "nat \<Rightarrow> js_string" where
  "show_nat n =
     (if n < 10 then [0x30 + of_nat n] else show_nat (n div 10) @ [0x30 + of_nat (n mod 10)])"

declare show_nat.simps [simp del]

text \<open>The number that a string of decimal digits denotes.\<close>

definition decimal_value :: "js_string \<Rightarrow> nat" where
  "decimal_value s = foldl (\<lambda>a c. 10 * a + (unat c - 48)) 0 s"

subsection \<open>The sanitizer\<close>

text \<open>
  \<^verbatim>\<open>
  const sanitizeText = (text: string): string => {
    if (!text) return "";
    return (
      text
        .replace(/[\x00-\x1F\x7F-\x9F]/g, "")   // Remove control characters
        .replace(/\t/g, " ")                    // Replace tabs with spaces
        .replace(/\s+/g, " ")                   // Replace multiple spaces with single space
        .substring(0, 100000)                   // Limit length
    );
  };
  \<close>
\<close>

definition sanitizeText :: "js_string \<Rightarrow> js_string" where
  "sanitizeText text =
     (if text = [] then []
      else substring 0 100000
             (replace_runs is_whitespace (js '' '')
               (replace_each is_tab (js '' '')
                 (replace_each is_control [] text))))"

text \<open>
  A string in which every code unit of the class \<open>P\<close> is the code unit \<open>sp\<close> and is not
  followed by another code unit of the class: the shape \<open>replace_runs P [sp]\<close> produces.
\<close>

fun runs_normal :: "(js_char \<Rightarrow> bool) \<Rightarrow> js_char \<Rightarrow> js_string \<Rightarrow> bool" where
  "runs_normal P sp [] = True"
| "runs_normal P sp (c # cs) =
     ((if P c then c = sp \<and> (case cs of [] \<Rightarrow> True | d # ds \<Rightarrow> \<not> P d) else True)
      \<and> runs_normal P sp cs)"

text \<open>The three replacements of the sanitizer, before the truncation.\<close>

definition normalized :: "js_string \<Rightarrow> js_string" where
  "normalized text =
     replace_runs is_whitespace (js '' '')
       (replace_each is_tab (js '' '') (replace_each is_control [] text))"

subsection \<open>Files, the outside world and the component state\<close>

text \<open>
  A \<^verbatim>\<open>File\<close> of the browser: \<^verbatim>\<open>name\<close>, \<^verbatim>\<open>type\<close>, \<^verbatim>\<open>size\<close> and \<^verbatim>\<open>lastModified\<close>
  (milliseconds since the epoch). \<open>pages\<close> stands for the content of a PDF, one entry
  per page with the text printed on it; the component itself never looks at it, only the
  OCR engine it hands the file to.
\<close>

record File =
  file_name :: js_string
  file_type :: js_string
  file_size :: nat
  lastModified :: nat
  pages :: "js_string list"

text \<open>A JavaScript \<^verbatim>\<open>Error\<close> with its \<^verbatim>\<open>message\<close>.\<close>

datatype error = Error (message: string)

text \<open>
  The outcome of \<^verbatim>\<open>fetch\<close> followed by \<^verbatim>\<open>response.json()\<close>: the promise of \<^verbatim>\<open>fetch\<close>
  rejects (network failure, aborted or timed-out connection), or it resolves to a
  response with its \<^verbatim>\<open>ok\<close> flag and a body, which either fails to parse or is an object
  whose field \<^verbatim>\<open>response\<close> is a string or is missing.
\<close>

datatype json_body = Unparseable error | Json (response: "js_string option")

datatype fetch_result = Rejected error | Response (ok: bool) (body: json_body)

text \<open>
  The collaborators of the component. \<open>recognize\<close> is the whole use of a Tesseract worker
  (\<^verbatim>\<open>createWorker\<close>, \<^verbatim>\<open>loadLanguage\<close>, \<^verbatim>\<open>initialize\<close>, \<^verbatim>\<open>recognize\<close>), all awaited in
  one \<^verbatim>\<open>try\<close> block; \<open>fetch\<close> is the POST to the text-generation endpoint. Both get the
  number of earlier invocations, so that two invocations on the same argument may end
  differently.
\<close>

record World =
  readAsText :: "File \<Rightarrow> error + js_string"
  readAsArrayBuffer :: "File \<Rightarrow> error + 8 word list"
  extractRawText :: "8 word list \<Rightarrow> error + js_string"
  recognize :: "nat \<Rightarrow> File \<Rightarrow> error + js_string"
  fetch :: "nat \<Rightarrow> js_string \<Rightarrow> fetch_result"
  toLocaleString :: "nat \<Rightarrow> js_string"

text \<open>
  The React state of the component that the pipeline reads and writes, and two counters
  that are not in the source: the number of OCR runs and of enhancement requests so far.
\<close>

record State =
  resumeFile :: "File option"
  resumeText :: js_string
  isPdfFile :: bool
  extractionMethod :: string
  ocr_calls :: nat
  ai_calls :: nat

definition initial_state :: State where
  "initial_state =
     \<lparr>resumeFile = None, resumeText = [], isPdfFile = False, extractionMethod = ''none'',
      ocr_calls = 0, ai_calls = 0\<rparr>"

subsection \<open>The extractors\<close>

text \<open>
  \<^verbatim>\<open>extractTextFromTextFile\<close>: the promise rejects with the reader's error, rejects with
  \<^verbatim>\<open>PDF_BINARY_DATA\<close> when the text starts with \<^verbatim>\<open>%PDF-\<close>, and resolves to the sanitized
  text otherwise.
\<close>

definition PDF_BINARY_DATA :: error where
  "PDF_BINARY_DATA = Error ''PDF_BINARY_DATA''"

definition extractTextFromTextFile :: "World \<Rightarrow> File \<Rightarrow> error + js_string" where
  "extractTextFromTextFile w file =
     (case readAsText w file of
        Inl e \<Rightarrow> Inl e
      | Inr text \<Rightarrow>
          if startsWith text (js ''%PDF-'') then Inl PDF_BINARY_DATA
          else Inr (sanitizeText text))"

text \<open>
  The \<^verbatim>\<open>try\<close> block of \<^verbatim>\<open>enhanceOcrResultWithAi\<close>. The test
  \<^verbatim>\<open>enhancedText && enhancedText.length > text.length / 2\<close> divides in floating point;
  on lengths it is \<open>length text < 2 * length enhancedText\<close> (lemma \<open>half_length\<close> below).
\<close>

definition enhance_try :: "fetch_result \<Rightarrow> js_string \<Rightarrow> error + js_string" where
  "enhance_try r text =
     (case r of
        Rejected e \<Rightarrow> Inl e
      | Response response_ok data \<Rightarrow>
          if response_ok then
            (case data of
               Unparseable e \<Rightarrow> Inl e
             | Json None \<Rightarrow> Inr (sanitizeText text)
             | Json (Some enhancedText) \<Rightarrow>
                 if enhancedText \<noteq> [] \<and> length text < 2 * length enhancedText
                 then Inr (sanitizeText enhancedText)
                 else Inr (sanitizeText text))
          else Inr (sanitizeText text))"

text \<open>\<^verbatim>\<open>enhanceOcrResultWithAi\<close>: the \<^verbatim>\<open>catch\<close> block returns \<^verbatim>\<open>sanitizeText(text)\<close>.\<close>

definition enhanceOcrResultWithAi ::
  "World \<Rightarrow> js_string \<Rightarrow> State \<Rightarrow> (error + js_string) \<times> State" where
  "enhanceOcrResultWithAi w text s =
     (let s' = s\<lparr>ai_calls := ai_calls s + 1\<rparr> in
      case enhance_try (fetch w (ai_calls s) text) text of
        Inr t \<Rightarrow> (Inr t, s')
      | Inl enhancementError \<Rightarrow> (Inr (sanitizeText text), s'))"

text \<open>
  \<^verbatim>\<open>extractTextFromPdfWithOcr\<close>: the file is handed to the engine as one object URL,
  \<^verbatim>\<open>worker.recognize(fileUrl)\<close>, with no option; the recognized text goes through the
  enhancement; an error of the engine is thrown again after the toast.
\<close>

definition extractTextFromPdfWithOcr ::
  "World \<Rightarrow> File \<Rightarrow> State \<Rightarrow> (error + js_string) \<times> State" where
  "extractTextFromPdfWithOcr w file s =
     (let s' = s\<lparr>ocr_calls := ocr_calls s + 1\<rparr> in
      case recognize w (ocr_calls s) file of
        Inl e \<Rightarrow> (Inl e, s')
      | Inr text \<Rightarrow> enhanceOcrResultWithAi w text s')"

text \<open>
  \<^verbatim>\<open>extractTextFromPdf\<close> has an inner \<^verbatim>\<open>try\<close> inside an outer one. The inner \<^verbatim>\<open>catch\<close>
  runs the OCR whatever the message of the error is; it also catches the error of the
  OCR run started in the inner \<^verbatim>\<open>try\<close>. An error thrown in the inner \<^verbatim>\<open>catch\<close> reaches
  the outer \<^verbatim>\<open>catch\<close>, which runs the OCR once more and lets its error through.
\<close>

definition pdf_outer_catch ::
  "World \<Rightarrow> File \<Rightarrow> error \<Rightarrow> State \<Rightarrow> (error + js_string) \<times> State" where
  "pdf_outer_catch w file err s = extractTextFromPdfWithOcr w file s"

definition pdf_inner_catch ::
  "World \<Rightarrow> File \<Rightarrow> error \<Rightarrow> State \<Rightarrow> (error + js_string) \<times> State" where
  "pdf_inner_catch w file err s =
     (case (if message err = ''PDF_BINARY_DATA''
            then extractTextFromPdfWithOcr w file s
            else extractTextFromPdfWithOcr w file s) of
        (Inr t, s') \<Rightarrow> (Inr t, s')
      | (Inl err', s') \<Rightarrow> pdf_outer_catch w file err' s')"

definition extractTextFromPdf ::
  "World \<Rightarrow> File \<Rightarrow> State \<Rightarrow> (error + js_string) \<times> State" where
  "extractTextFromPdf w file s =
     (case extractTextFromTextFile w file of
        Inl err \<Rightarrow> pdf_inner_catch w file err s
      | Inr textResult \<Rightarrow>
          if textResult \<noteq> [] \<and> 100 < length (trim textResult) then (Inr textResult, s)
          else (case extractTextFromPdfWithOcr w file s of
                  (Inr t, s') \<Rightarrow> (Inr t, s')
                | (Inl err, s') \<Rightarrow> pdf_inner_catch w file err s'))"

text \<open>
  \<^verbatim>\<open>extractTextFromWordDocument\<close>: the enhancement is tried when the raw text has more
  than 100 code units, inside a \<^verbatim>\<open>try\<close> of its own that keeps the raw text on failure.
\<close>

definition extractTextFromWordDocument ::
  "World \<Rightarrow> File \<Rightarrow> State \<Rightarrow> (error + js_string) \<times> State" where
  "extractTextFromWordDocument w file s =
     (case readAsArrayBuffer w file of
        Inl e \<Rightarrow> (Inl e, s)
      | Inr arrayBuffer \<Rightarrow>
          (case extractRawText w arrayBuffer of
             Inl e \<Rightarrow> (Inl e, s)
           | Inr text \<Rightarrow>
               if text \<noteq> [] \<and> 100 < length text then
                 (case enhanceOcrResultWithAi w text s of
                    (Inr finalText, s') \<Rightarrow> (Inr (sanitizeText finalText), s')
                  | (Inl enhanceError, s') \<Rightarrow> (Inr (sanitizeText text), s'))
               else (Inr (sanitizeText text), s)))"

subsection \<open>The upload handler\<close>

definition isPdf :: "File \<Rightarrow> bool" where
  "isPdf file =
     (file_type file = js ''application/pdf'' \<or>
      endsWith (toLowerCase (file_name file)) (js ''.pdf''))"

definition isWordDoc :: "File \<Rightarrow> bool" where
  "isWordDoc file =
     (file_type file =
        js ''application/vnd.openxmlformats-officedocument.wordprocessingml.document'' \<or>
      file_type file = js ''application/msword'' \<or>
      endsWith (toLowerCase (file_name file)) (js ''.docx'') \<or>
      endsWith (toLowerCase (file_name file)) (js ''.doc''))"

text \<open>
  \<^verbatim>\<open>Math.round(file.size / 1024)\<close> rounds halves up; on a size in bytes it is
  \<open>(size + 512) div 1024\<close> (lemma \<open>round_kb_real\<close> below).
\<close>

definition round_kb :: "nat \<Rightarrow> nat" where
  "round_kb n = (n + 512) div 1024"

text \<open>The template literal of the \<^verbatim>\<open>catch\<close> block of \<^verbatim>\<open>handleFileChange\<close>.\<close>

definition fallbackText :: "World \<Rightarrow> File \<Rightarrow> js_string" where
  "fallbackText w file =
     js ''Could not extract text from '' @ file_name file @ js '' ('' @
     (if file_type file \<noteq> [] then file_type file else js ''unknown type'') @ js '')'' @
     [0x0A] @ js ''        '' @ [0x0A] @
     js ''File size: '' @ show_nat (round_kb (file_size file)) @ js '' KB'' @ [0x0A] @
     js ''Last modified: '' @ toLocaleString w (lastModified file) @ [0x0A, 0x0A] @
     js ''[The file content could not be automatically extracted. Please try a different file format (like .txt) or ensure the file is not corrupted or password protected.]''"

text \<open>
  The \<^verbatim>\<open>try\<close> block of \<^verbatim>\<open>handleFileChange\<close>: the method is set before the extractor of
  the branch is awaited.
\<close>

definition dispatch :: "World \<Rightarrow> File \<Rightarrow> State \<Rightarrow> (error + js_string) \<times> State" where
  "dispatch w file s =
     (if isPdf file then
        extractTextFromPdf w file (s\<lparr>extractionMethod := ''pdf_extraction''\<rparr>)
      else if isWordDoc file then
        extractTextFromWordDocument w file (s\<lparr>extractionMethod := ''word_document''\<rparr>)
      else if file_type file = js ''text/plain'' \<or> endsWith (file_name file) (js ''.txt'') then
        (extractTextFromTextFile w file, s\<lparr>extractionMethod := ''text_file''\<rparr>)
      else
        (extractTextFromTextFile w file, s\<lparr>extractionMethod := ''unknown_file''\<rparr>))"

text \<open>
  \<^verbatim>\<open>handleFileChange\<close> on the first file of the input element, if any. A file over
  10 MB is refused with a toast and nothing else changes.
\<close>

definition handleFileChange :: "World \<Rightarrow> File option \<Rightarrow> State \<Rightarrow> State" where
  "handleFileChange w selected s =
     (case selected of
        None \<Rightarrow> s
      | Some file \<Rightarrow>
          if 10 * 1024 * 1024 < file_size file then s
          else
            (case dispatch w file (s\<lparr>isPdfFile := isPdf file, resumeFile := Some file\<rparr>) of
               (Inr text, s') \<Rightarrow> s'\<lparr>resumeText := text\<rparr>
             | (Inl err, s') \<Rightarrow>
                 s'\<lparr>resumeText := fallbackText w file, extractionMethod := ''failed''\<rparr>))"

subsection \<open>Submission\<close>

text \<open>
  The fields of the row that \<^verbatim>\<open>handleSubmit\<close> inserts into \<^verbatim>\<open>applications\<close> and that
  come from the extraction.
\<close>

record ExtractionResult =
  resume_txt :: js_string
  text_extraction_method :: string
  is_pdf :: bool

text \<open>
  \<^verbatim>\<open>handleSubmit\<close>: without a file nothing is sent. \<open>checks_pass\<close> stands for the form
  validation, the login and the profile query that precede the insert, \<open>insert_ok\<close> for
  the answer of the store. The result is the row handed to the store, if any, and the
  next state.
\<close>

definition handleSubmit :: "bool \<Rightarrow> bool \<Rightarrow> State \<Rightarrow> ExtractionResult option \<times> State" where
  "handleSubmit checks_pass insert_ok s =
     (case resumeFile s of
        None \<Rightarrow> (None, s)
      | Some file \<Rightarrow>
          if \<not> checks_pass then (None, s)
          else
            (Some \<lparr>resume_txt = sanitizeText (resumeText s),
                   text_extraction_method =
                     (if extractionMethod s \<noteq> [] then extractionMethod s else ''unknown''),
                   is_pdf = isPdfFile s\<rparr>,
             if insert_ok then s\<lparr>resumeFile := None, resumeText := []\<rparr> else s))"

text \<open>The states the component can be in: any sequence of uploads and submissions.\<close>

inductive reachable :: "State \<Rightarrow> bool" where
  start: "reachable initial_state"
| upload: "reachable s \<Longrightarrow> reachable (handleFileChange w selected s)"
| submit: "reachable s \<Longrightarrow> reachable (snd (handleSubmit checks_pass insert_ok s))"

text \<open>
  Two states that agree on everything the component shows and submits; the extractors
  only count their calls.
\<close>

definition same_ui :: "State \<Rightarrow> State \<Rightarrow> bool" where
  "same_ui s s' =
     (resumeFile s' = resumeFile s \<and> resumeText s' = resumeText s \<and>
      isPdfFile s' = isPdfFile s \<and> extractionMethod s' = extractionMethod s)"

subsection \<open>Sample files and collaborators\<close>

text \<open>
  A world in which every collaborator fails: the reader cannot read, the converter finds
  no ZIP directory, the OCR engine cannot decode, the enhancement endpoint is unreachable.
  The other worlds below change one collaborator or two.
\<close>

definition silent_world :: World where
  "silent_world =
     \<lparr>readAsText = (\<lambda>file. Inl (Error ''NotReadableError'')),
      readAsArrayBuffer = (\<lambda>file. Inl (Error ''NotReadableError'')),
      extractRawText = (\<lambda>buffer. Inl (Error ''Can not find end of central directory'')),
      recognize = (\<lambda>n file. Inl (Error ''Error attempting to read image'')),
      fetch = (\<lambda>n text. Rejected (Error ''Failed to fetch'')),
      toLocaleString = (\<lambda>ms. js ''1/1/1970, 12:00:00 AM'')\<rparr>"

definition http_500 :: fetch_result where
  "http_500 = Response False (Json None)"

definition world_http_500 :: World where
  "world_http_500 = silent_world\<lparr>fetch := (\<lambda>n text. http_500)\<rparr>"

definition world_completion_xy :: World where
  "world_completion_xy = silent_world\<lparr>fetch := (\<lambda>n text. Response True (Json (Some (js ''xy''))))\<rparr>"

definition world_bad_json :: World where
  "world_bad_json =
     silent_world\<lparr>fetch := (\<lambda>n text. Response True (Unparseable (Error ''Unexpected token'')))\<rparr>"

definition world_no_completion :: World where
  "world_no_completion = silent_world\<lparr>fetch := (\<lambda>n text. Response True (Json None))\<rparr>"

text \<open>
  A scanned PDF of eight pages, and a world whose reader sees the PDF signature and whose
  OCR engine returns the text of every page of the file it is given.
\<close>

definition scanned_pdf :: File where
  "scanned_pdf =
     \<lparr>file_name = js ''resume.pdf'', file_type = js ''application/pdf'', file_size = 204800,
      lastModified = 0,
      pages = [js ''page1 '', js ''page2 '', js ''page3 '', js ''page4 '', js ''page5 '',
               js ''page6 '', js ''page7 '', js ''page8'']\<rparr>"

definition world_scanned :: World where
  "world_scanned =
     silent_world\<lparr>readAsText := (\<lambda>file. Inr (js ''%PDF-1.4'')),
                  recognize := (\<lambda>n file. Inr (concat (pages file)))\<rparr>"

definition world_direct :: "nat \<Rightarrow> World" where
  "world_direct n =
     silent_world\<lparr>readAsText := (\<lambda>file. Inr (replicate n 0x61)),
                  recognize := (\<lambda>k file. Inr (js ''scan''))\<rparr>"

definition corrupt_docx :: File where
  "corrupt_docx =
     \<lparr>file_name = js ''cv.docx'',
      file_type = js ''application/vnd.openxmlformats-officedocument.wordprocessingml.document'',
      file_size = 20480, lastModified = 0, pages = []\<rparr>"

definition world_corrupt_docx :: World where
  "world_corrupt_docx = silent_world\<lparr>readAsArrayBuffer := (\<lambda>file. Inr [0x50, 0x4B])\<rparr>"

definition rtf_file :: File where
  "rtf_file =
     \<lparr>file_name = js ''cv.rtf'', file_type = js ''application/rtf'', file_size = 1024,
      lastModified = 0, pages = []\<rparr>"

definition world_rtf :: World where
  "world_rtf = silent_world\<lparr>readAsText := (\<lambda>file. Inr (js ''Jane Doe''))\<rparr>"

section \<open>Properties of the sanitizer\<close>

lemma js_space: "js '' '' = [0x20]"
  by (simp add: js_def)

lemma replace_each_delete: "replace_each P [] s = filter (\<lambda>c. \<not> P c) s"
  by (induction s) (simp_all add: replace_each_def)

lemma replace_each_absent: "\<forall>c \<in> set s. \<not> P c \<Longrightarrow> replace_each P r s = s"
  by (induction s) (simp_all add: replace_each_def)

lemma tab_is_control: "is_tab c \<Longrightarrow> is_control c"
  by (simp add: is_tab_def is_control_def)

lemma space_not_control: "\<not> is_control 0x20"
  by (simp add: is_control_def)

lemma set_replace_runs: "set (replace_runs P r s) \<subseteq> set r \<union> {c \<in> set s. \<not> P c}"
proof (induction P r s rule: replace_runs.induct)
  case (1 P r)
  show ?case by simp
next
  case (2 P r c cs)
  show ?case
  proof (cases "P c")
    case True
    have "set (dropWhile P cs) \<subseteq> set cs" by (rule set_dropWhileD [THEN subsetI])
    with 2(1) [OF True] True show ?thesis by auto
  next
    case False
    with 2(2) [OF False] show ?thesis by auto
  qed
qed

lemma runs_normal_replace_runs: "runs_normal P sp (replace_runs P [sp] s)"
proof (induction P "[sp]" s rule: replace_runs.induct)
  case (1 P)
  show ?case by simp
next
  case (2 P c cs)
  show ?case
  proof (cases "P c")
    case True
    note ih = 2(1) [OF True]
    from True have eq: "replace_runs P [sp] (c # cs) = sp # replace_runs P [sp] (dropWhile P cs)"
      by simp
    show ?thesis
    proof (cases "dropWhile P cs")
      case Nil
      show ?thesis unfolding eq Nil by simp
    next
      case (Cons d ds)
      then have "\<not> P d" by (metis hd_dropWhile list.sel(1) list.distinct(1))
      with ih show ?thesis unfolding eq Cons by simp
    qed
  next
    case False
    with 2(2) [OF False] show ?thesis by simp
  qed
qed

lemma replace_runs_normal_id: "runs_normal P sp s \<Longrightarrow> replace_runs P [sp] s = s"
proof (induction s)
  case Nil
  show ?case by simp
next
  case (Cons c cs)
  then have tl: "replace_runs P [sp] cs = cs" by simp
  show ?case
  proof (cases "P c")
    case True
    with Cons.prems have c: "c = sp" and nxt: "case cs of [] \<Rightarrow> True | d # ds \<Rightarrow> \<not> P d"
      by simp_all
    from nxt have "dropWhile P cs = cs" by (cases cs) simp_all
    with True c tl show ?thesis by simp
  next
    case False
    with tl show ?thesis by simp
  qed
qed

lemma runs_normal_take: "runs_normal P sp s \<Longrightarrow> runs_normal P sp (take n s)"
proof (induction s arbitrary: n)
  case Nil
  show ?case by simp
next
  case (Cons c cs)
  show ?case
  proof (cases n)
    case 0
    then show ?thesis by simp
  next
    case (Suc m)
    from Cons.prems have tl: "runs_normal P sp (take m cs)" by (simp add: Cons.IH)
    have nxt: "(case cs of [] \<Rightarrow> True | d # ds \<Rightarrow> \<not> P d) \<Longrightarrow>
               (case take m cs of [] \<Rightarrow> True | d # ds \<Rightarrow> \<not> P d)"
      by (cases cs; cases m) simp_all
    from Cons.prems tl nxt Suc show ?thesis by (simp split: if_splits)
  qed
qed

lemma sanitizeText_normalized:
  "sanitizeText text = (if text = [] then [] else take 100000 (normalized text))"
  by (simp add: sanitizeText_def normalized_def substring_def)

lemma normalized_eq:
  "normalized text = replace_runs is_whitespace [0x20] (filter (\<lambda>c. \<not> is_control c) text)"
proof -
  have "\<forall>c \<in> set (filter (\<lambda>c. \<not> is_control c) text). \<not> is_tab c"
    using tab_is_control by auto
  then show ?thesis
    by (simp add: normalized_def js_space replace_each_delete replace_each_absent)
qed

lemma normalized_no_control: "c \<in> set (normalized text) \<Longrightarrow> \<not> is_control c"
  using set_replace_runs [of is_whitespace "[0x20]" "filter (\<lambda>c. \<not> is_control c) text"]
  by (auto simp: normalized_eq space_not_control)

lemma sanitizeText_no_control: "c \<in> set (sanitizeText text) \<Longrightarrow> \<not> is_control c"
  by (auto simp: sanitizeText_normalized dest: in_set_takeD normalized_no_control split: if_splits)

lemma sanitizeText_length: "length (sanitizeText text) \<le> 100000"
  by (simp add: sanitizeText_normalized)

lemma sanitizeText_runs_normal: "runs_normal is_whitespace 0x20 (sanitizeText text)"
  by (simp add: sanitizeText_normalized normalized_eq runs_normal_take runs_normal_replace_runs)

lemma sanitizeText_fixed:
  assumes "\<forall>c \<in> set y. \<not> is_control c" "runs_normal is_whitespace 0x20 y" "length y \<le> 100000"
  shows "sanitizeText y = y"
proof -
  from assms(1) have "filter (\<lambda>c. \<not> is_control c) y = y" by (simp add: filter_id_conv)
  with assms(2,3) show ?thesis
    by (simp add: sanitizeText_normalized normalized_eq replace_runs_normal_id)
qed

lemma normalized_Nil: "normalized [] = []"
  by (simp add: normalized_eq)

lemma sanitizeText_take: "sanitizeText text = take 100000 (normalized text)"
  by (simp add: sanitizeText_normalized normalized_Nil)

lemma sanitizeText_drops_control:
  "is_control c \<Longrightarrow> sanitizeText (xs @ c # ys) = sanitizeText (xs @ ys)"
  by (simp add: sanitizeText_take normalized_eq)

lemma replace_runs_absent: "\<forall>c \<in> set s. \<not> P c \<Longrightarrow> replace_runs P r s = s"
  by (induction s) simp_all

lemma sanitizeText_plain:
  assumes "\<forall>c \<in> set s. \<not> is_control c \<and> \<not> is_whitespace c"
  shows "sanitizeText s = take 100000 s"
proof -
  from assms have "filter (\<lambda>c. \<not> is_control c) s = s" by (simp add: filter_id_conv)
  with assms show ?thesis by (simp add: sanitizeText_take normalized_eq replace_runs_absent)
qed

lemma letter_a_plain: "\<not> is_control 0x61 \<and> \<not> is_whitespace 0x61"
  by (simp add: is_control_def is_whitespace_def)

lemmas char_classes = is_control_def is_tab_def is_whitespace_def

lemmas sanitize_eval = sanitizeText_def substring_def replace_each_def js_def char_classes

text \<open>
  C7. The sanitizer is idempotent: sanitizing a sanitized string gives the same string,
  for every string \<open>x\<close>.
\<close>

theorem sanitizeText_idempotent: "sanitizeText (sanitizeText x) = sanitizeText x"
  by (rule sanitizeText_fixed)
     (auto simp: sanitizeText_length sanitizeText_runs_normal dest: sanitizeText_no_control)



text \<open>
  C10. The sanitizer deletes line feeds and carriage returns outright, since its first
  replacement removes the control range before any white space is collapsed: a string
  with a line break between two parts sanitizes to the same result as the two parts put
  side by side. When the two parts have no control and no white-space code unit, the
  result is the code units of the first part followed at once by those of the second,
  with no space in between, cut at 100000. For example \<^verbatim>\<open>"Jane Doe\nSoftware Engineer"\<close>
  becomes \<^verbatim>\<open>"Jane DoeSoftware Engineer"\<close>.
\<close>

theorem sanitizeText_deletes_line_breaks:
  "sanitizeText (xs @ [0x0A] @ ys) = sanitizeText (xs @ ys) \<and>
   sanitizeText (xs @ [0x0D] @ ys) = sanitizeText (xs @ ys) \<and>
   ((\<forall>c \<in> set (xs @ ys). \<not> is_control c \<and> \<not> is_whitespace c) \<longrightarrow>
      sanitizeText (xs @ [0x0A] @ ys) = take 100000 (xs @ ys) \<and>
      sanitizeText (xs @ [0x0D] @ ys) = take 100000 (xs @ ys)) \<and>
   sanitizeText (js ''Jane Doe'' @ [0x0A] @ js ''Software Engineer'') =
     js ''Jane DoeSoftware Engineer''"
proof -
  have lf: "is_control 0x0A" and cr: "is_control 0x0D"
    by (simp_all add: is_control_def)
  have drop_lf: "sanitizeText (xs @ [0x0A] @ ys) = sanitizeText (xs @ ys)"
    and drop_cr: "sanitizeText (xs @ [0x0D] @ ys) = sanitizeText (xs @ ys)"
    using sanitizeText_drops_control [OF lf] sanitizeText_drops_control [OF cr] by simp_all
  have plain: "sanitizeText (xs @ ys) = take 100000 (xs @ ys)"
    if "\<forall>c \<in> set (xs @ ys). \<not> is_control c \<and> \<not> is_whitespace c"
    using that by (rule sanitizeText_plain)
  have example: "sanitizeText (js ''Jane Doe'' @ [0x0A] @ js ''Software Engineer'') =
        js ''Jane DoeSoftware Engineer''"
    by (simp add: sanitize_eval)
  from drop_lf drop_cr plain example show ?thesis by metis
qed

text \<open>
  Two lines without white space, \<^verbatim>\<open>"Doe"\<close> and \<^verbatim>\<open>"Software"\<close>, with either line break
  between them.
\<close>

theorem sanitizeText_deletes_line_breaks_witness:
  "sanitizeText (js ''Doe'' @ [0x0A] @ js ''Software'') = js ''DoeSoftware'' \<and>
   sanitizeText (js ''Doe'' @ [0x0D] @ js ''Software'') = js ''DoeSoftware''"
proof -
  have plain: "\<forall>c \<in> set (js ''Doe'' @ js ''Software''). \<not> is_control c \<and> \<not> is_whitespace c"
    by (simp add: js_def char_classes)
  have cut: "take 100000 (js ''Doe'' @ js ''Software'') = js ''DoeSoftware''"
    by (simp add: js_def)
  from sanitizeText_deletes_line_breaks [of "js ''Doe''" "js ''Software''"] plain
  show ?thesis unfolding cut by blast
qed

text \<open>
  C4. The sanitizer is meant to turn each tab into one space. In the code the tab is in
  the control range that the first replacement deletes, so the replacement of tabs never
  finds one: \<^verbatim>\<open>"a\tb"\<close> becomes \<^verbatim>\<open>"ab"\<close>, not \<^verbatim>\<open>"a b"\<close>.
\<close>

theorem sanitizeText_tab_deleted:
  "sanitizeText (js ''a'' @ [0x09] @ js ''b'') = js ''ab'' \<and>
   sanitizeText (js ''a'' @ [0x09] @ js ''b'') \<noteq> js ''a b''"
  by (simp add: sanitize_eval)

section \<open>The arithmetic of the source on lengths and sizes\<close>

lemma half_length:
  "(real (length enhancedText) > real (length text) / 2) = (length text < 2 * length enhancedText)"
  by (auto simp: field_simps)

lemma round_kb_real: "nat \<lfloor>real n / 1024 + 1 / 2\<rfloor> = round_kb n"
proof -
  have a: "real n / 1024 + 1 / 2 = real (n + 512) / real 1024" by simp
  have "\<lfloor>real n / 1024 + 1 / 2\<rfloor> = \<lfloor>real (n + 512) / real 1024\<rfloor>" by (simp only: a)
  also have "\<dots> = int ((n + 512) div 1024)" by (rule floor_divide_of_nat_eq)
  finally show ?thesis by (simp add: round_kb_def)
qed

section \<open>Evaluation on the sample files\<close>

lemmas fixtures = silent_world_def http_500_def world_http_500_def world_completion_xy_def
  world_bad_json_def world_no_completion_def scanned_pdf_def world_scanned_def world_direct_def
  corrupt_docx_def world_corrupt_docx_def rtf_file_def world_rtf_def initial_state_def

lemmas pipeline_eval = handleFileChange_def dispatch_def isPdf_def isWordDoc_def endsWith_def
  toLowerCase_def extractTextFromPdf_def pdf_inner_catch_def pdf_outer_catch_def
  extractTextFromPdfWithOcr_def enhanceOcrResultWithAi_def enhance_try_def
  extractTextFromTextFile_def extractTextFromWordDocument_def startsWith_def
  PDF_BINARY_DATA_def handleSubmit_def Let_def

section \<open>The enhancement\<close>

lemma enhance_fst:
  "fst (enhanceOcrResultWithAi w text s) =
     (case enhance_try (fetch w (ai_calls s) text) text of
        Inr t \<Rightarrow> Inr t | Inl e \<Rightarrow> Inr (sanitizeText text))"
  by (simp add: enhanceOcrResultWithAi_def Let_def split: sum.splits)

lemma enhance_snd:
  "snd (enhanceOcrResultWithAi w text s) = s\<lparr>ai_calls := ai_calls s + 1\<rparr>"
  by (simp add: enhanceOcrResultWithAi_def Let_def split: sum.splits)

text \<open>
  C3, as the code has it. The enhancement never fails: it always returns a text. When the
  request is rejected (the code sets no timeout of its own; a connection that times out
  is a rejected request), when the status is not ok, when the body does not parse or has
  no completion, the result is the sanitized input, \<^verbatim>\<open>sanitizeText(text)\<close>. A completion is
  accepted when its length is more than half the length of the input, and is returned
  sanitized; otherwise the result is the sanitized input.
\<close>

theorem enhance_falls_back_to_sanitized_input:
  "(\<exists>t. fst (enhanceOcrResultWithAi w text s) = Inr t) \<and>
   (fetch w (ai_calls s) text = Rejected e \<longrightarrow>
      fst (enhanceOcrResultWithAi w text s) = Inr (sanitizeText text)) \<and>
   (fetch w (ai_calls s) text = Response False b \<longrightarrow>
      fst (enhanceOcrResultWithAi w text s) = Inr (sanitizeText text)) \<and>
   (fetch w (ai_calls s) text = Response True (Unparseable e) \<longrightarrow>
      fst (enhanceOcrResultWithAi w text s) = Inr (sanitizeText text)) \<and>
   (fetch w (ai_calls s) text = Response True (Json None) \<longrightarrow>
      fst (enhanceOcrResultWithAi w text s) = Inr (sanitizeText text)) \<and>
   (fetch w (ai_calls s) text = Response True (Json (Some c)) \<longrightarrow>
      fst (enhanceOcrResultWithAi w text s) =
        Inr (if real (length c) > real (length text) / 2 then sanitizeText c
             else sanitizeText text))"
proof -
  have "\<exists>t. fst (enhanceOcrResultWithAi w text s) = Inr t"
    by (simp add: enhance_fst split: sum.splits)
  moreover have "fetch w (ai_calls s) text = Response True (Json (Some c)) \<longrightarrow>
      fst (enhanceOcrResultWithAi w text s) =
        Inr (if real (length c) > real (length text) / 2 then sanitizeText c
             else sanitizeText text)"
    unfolding half_length by (auto simp: enhance_fst enhance_try_def)
  ultimately show ?thesis
    by (simp add: enhance_fst enhance_try_def)
qed

theorem enhance_falls_back_to_sanitized_input_witness:
  "fetch silent_world (ai_calls initial_state) (js ''abc'') = Rejected (Error ''Failed to fetch'') \<and>
   fst (enhanceOcrResultWithAi silent_world (js ''abc'') initial_state) = Inr (js ''abc'') \<and>
   fetch world_http_500 (ai_calls initial_state) (js ''abc'') = Response False (Json None) \<and>
   fst (enhanceOcrResultWithAi world_http_500 (js ''abc'') initial_state) = Inr (js ''abc'') \<and>
   fetch world_bad_json (ai_calls initial_state) (js ''abc'')
     = Response True (Unparseable (Error ''Unexpected token'')) \<and>
   fst (enhanceOcrResultWithAi world_bad_json (js ''abc'') initial_state) = Inr (js ''abc'') \<and>
   fetch world_no_completion (ai_calls initial_state) (js ''abc'') = Response True (Json None) \<and>
   fst (enhanceOcrResultWithAi world_no_completion (js ''abc'') initial_state)
     = Inr (js ''abc'') \<and>
   fetch world_completion_xy (ai_calls initial_state) (js ''abc'')
     = Response True (Json (Some (js ''xy''))) \<and>
   fst (enhanceOcrResultWithAi world_completion_xy (js ''abc'') initial_state) = Inr (js ''xy'')"
proof -
  have h1: "fetch silent_world (ai_calls initial_state) (js ''abc'')
              = Rejected (Error ''Failed to fetch'')"
    and h2: "fetch world_http_500 (ai_calls initial_state) (js ''abc'')
              = Response False (Json None)"
    and h3: "fetch world_bad_json (ai_calls initial_state) (js ''abc'')
              = Response True (Unparseable (Error ''Unexpected token''))"
    and h4: "fetch world_no_completion (ai_calls initial_state) (js ''abc'')
              = Response True (Json None)"
    and h5: "fetch world_completion_xy (ai_calls initial_state) (js ''abc'')
              = Response True (Json (Some (js ''xy'')))"
    by (simp_all add: fixtures)
  have san: "sanitizeText (js ''abc'') = js ''abc''" "sanitizeText (js ''xy'') = js ''xy''"
    by (simp_all add: sanitize_eval)
  have more: "real (length (js ''xy'')) > real (length (js ''abc'')) / 2"
    by (simp add: js_def)
  from enhance_falls_back_to_sanitized_input
         [of silent_world "js ''abc''" initial_state "Error ''Failed to fetch''"] h1
  have c1: "fst (enhanceOcrResultWithAi silent_world (js ''abc'') initial_state)
              = Inr (js ''abc'')"
    unfolding san by blast
  from enhance_falls_back_to_sanitized_input
         [of world_http_500 "js ''abc''" initial_state _ "Json None"] h2
  have c2: "fst (enhanceOcrResultWithAi world_http_500 (js ''abc'') initial_state)
              = Inr (js ''abc'')"
    unfolding san by blast
  from enhance_falls_back_to_sanitized_input
         [of world_bad_json "js ''abc''" initial_state "Error ''Unexpected token''"] h3
  have c3: "fst (enhanceOcrResultWithAi world_bad_json (js ''abc'') initial_state)
              = Inr (js ''abc'')"
    unfolding san by blast
  from enhance_falls_back_to_sanitized_input
         [of world_no_completion "js ''abc''" initial_state] h4
  have c4: "fst (enhanceOcrResultWithAi world_no_completion (js ''abc'') initial_state)
              = Inr (js ''abc'')"
    unfolding san by blast
  from enhance_falls_back_to_sanitized_input
         [of world_completion_xy "js ''abc''" initial_state _ _ "js ''xy''"] h5
  have "fst (enhanceOcrResultWithAi world_completion_xy (js ''abc'') initial_state)
          = Inr (if real (length (js ''xy'')) > real (length (js ''abc'')) / 2
                 then sanitizeText (js ''xy'') else sanitizeText (js ''abc''))"
    by blast
  with more have c5: "fst (enhanceOcrResultWithAi world_completion_xy (js ''abc'') initial_state)
              = Inr (js ''xy'')"
    by (simp only: san if_True)
  from h1 c1 h2 c2 h3 c3 h4 c4 h5 c5 show ?thesis by blast
qed

text \<open>
  C3 as stated fails on two points. With status 500 the input \<^verbatim>\<open>"a\nb"\<close> comes back as
  \<^verbatim>\<open>"ab"\<close>, not unchanged. A completion of 2 code units for an input of 4 is at least half
  as long and is still refused: the test is \<^verbatim>\<open>>\<close>, not \<^verbatim>\<open>>=\<close>.
\<close>

theorem enhance_returns_input_unchanged_counterexample:
  "fst (enhanceOcrResultWithAi world_http_500 (js ''a'' @ [0x0A] @ js ''b'') initial_state)
     = Inr (js ''ab'') \<and>
   js ''ab'' \<noteq> js ''a'' @ [0x0A] @ js ''b'' \<and>
   2 * length (js ''xy'') \<ge> length (js ''abcd'') \<and>
   fst (enhanceOcrResultWithAi world_completion_xy (js ''abcd'') initial_state)
     = Inr (js ''abcd'')"
  by (simp add: enhance_fst enhance_try_def fixtures sanitize_eval)

section \<open>What the extractors do to the state\<close>

lemma same_ui_refl: "same_ui s s"
  by (simp add: same_ui_def)

lemma same_ui_trans: "same_ui s s' \<Longrightarrow> same_ui s' s'' \<Longrightarrow> same_ui s s''"
  by (simp add: same_ui_def)

lemma enhance_same_ui: "same_ui s (snd (enhanceOcrResultWithAi w text s))"
  by (simp add: enhance_snd same_ui_def)

lemma enhance_ocr_calls: "ocr_calls (snd (enhanceOcrResultWithAi w text s)) = ocr_calls s"
  by (simp add: enhance_snd)

lemma ocr_unfold:
  "extractTextFromPdfWithOcr w file s =
     (case recognize w (ocr_calls s) file of
        Inl e \<Rightarrow> (Inl e, s\<lparr>ocr_calls := ocr_calls s + 1\<rparr>)
      | Inr text \<Rightarrow> enhanceOcrResultWithAi w text (s\<lparr>ocr_calls := ocr_calls s + 1\<rparr>))"
  by (simp add: extractTextFromPdfWithOcr_def Let_def split: sum.splits)

lemma ocr_same_ui: "same_ui s (snd (extractTextFromPdfWithOcr w file s))"
  by (simp add: ocr_unfold enhance_snd same_ui_def split: sum.splits)

lemma ocr_ocr_calls:
  "ocr_calls (snd (extractTextFromPdfWithOcr w file s)) = ocr_calls s + 1"
  by (simp add: ocr_unfold enhance_snd split: sum.splits)

lemma outer_catch_same_ui: "same_ui s (snd (pdf_outer_catch w file err s))"
  by (simp add: pdf_outer_catch_def ocr_same_ui)

lemma outer_catch_ocr_calls:
  "ocr_calls (snd (pdf_outer_catch w file err s)) = ocr_calls s + 1"
  by (simp add: pdf_outer_catch_def ocr_ocr_calls)

lemma inner_catch_unfold:
  "pdf_inner_catch w file err s =
     (case fst (extractTextFromPdfWithOcr w file s) of
        Inr t \<Rightarrow> extractTextFromPdfWithOcr w file s
      | Inl err' \<Rightarrow> pdf_outer_catch w file err' (snd (extractTextFromPdfWithOcr w file s)))"
  by (cases "extractTextFromPdfWithOcr w file s")
     (simp add: pdf_inner_catch_def split: sum.splits)

lemma inner_catch_same_ui: "same_ui s (snd (pdf_inner_catch w file err s))"
  unfolding inner_catch_unfold
  by (auto split: sum.splits intro: ocr_same_ui same_ui_trans [OF ocr_same_ui outer_catch_same_ui])

lemma inner_catch_ocr_calls: "ocr_calls s < ocr_calls (snd (pdf_inner_catch w file err s))"
  unfolding inner_catch_unfold
  by (simp add: ocr_ocr_calls outer_catch_ocr_calls split: sum.splits)

lemma pdf_unfold:
  "extractTextFromPdf w file s =
     (case extractTextFromTextFile w file of
        Inl err \<Rightarrow> pdf_inner_catch w file err s
      | Inr textResult \<Rightarrow>
          if textResult \<noteq> [] \<and> 100 < length (trim textResult) then (Inr textResult, s)
          else (case fst (extractTextFromPdfWithOcr w file s) of
                  Inr t \<Rightarrow> extractTextFromPdfWithOcr w file s
                | Inl err \<Rightarrow> pdf_inner_catch w file err (snd (extractTextFromPdfWithOcr w file s))))"
  by (cases "extractTextFromPdfWithOcr w file s")
     (simp add: extractTextFromPdf_def split: sum.splits)

lemma pdf_same_ui: "same_ui s (snd (extractTextFromPdf w file s))"
  unfolding pdf_unfold
  by (auto split: sum.splits
      intro: same_ui_refl ocr_same_ui inner_catch_same_ui
             same_ui_trans [OF ocr_same_ui inner_catch_same_ui])

lemma word_same_ui: "same_ui s (snd (extractTextFromWordDocument w file s))"
proof -
  have h: "same_ui s (snd (case enhanceOcrResultWithAi w raw s of
                          (Inr finalText, s') \<Rightarrow> (Inr (sanitizeText finalText), s')
                        | (Inl enhanceError, s') \<Rightarrow> (Inr (sanitizeText raw), s')))" for raw
    using enhance_same_ui [of s w raw]
    by (cases "enhanceOcrResultWithAi w raw s") (simp split: sum.splits)
  show ?thesis
    by (simp add: extractTextFromWordDocument_def same_ui_refl h split: sum.splits)
qed

lemma dispatch_method:
  "extractionMethod (snd (dispatch w file s)) \<in>
     {''pdf_extraction'', ''word_document'', ''text_file'', ''unknown_file''}"
  using pdf_same_ui [of "s\<lparr>extractionMethod := ''pdf_extraction''\<rparr>" w "file"]
        word_same_ui [of "s\<lparr>extractionMethod := ''word_document''\<rparr>" w "file"]
  by (simp add: dispatch_def same_ui_def)

lemma dispatch_ui:
  "resumeFile (snd (dispatch w file s)) = resumeFile s \<and>
   isPdfFile (snd (dispatch w file s)) = isPdfFile s"
  using pdf_same_ui [of "s\<lparr>extractionMethod := ''pdf_extraction''\<rparr>" w "file"]
        word_same_ui [of "s\<lparr>extractionMethod := ''word_document''\<rparr>" w "file"]
  by (simp add: dispatch_def same_ui_def)

section \<open>The PDF chain\<close>

lemma dropWhile_absent: "\<forall>c \<in> set s. \<not> P c \<Longrightarrow> dropWhile P s = s"
  by (cases s) simp_all

lemma trim_plain: "\<forall>c \<in> set s. \<not> is_whitespace c \<Longrightarrow> trim s = s"
  by (simp add: trim_def dropWhile_absent)

lemma textfile_direct:
  "readAsText w file = Inr raw \<Longrightarrow> \<not> startsWith raw (js ''%PDF-'') \<Longrightarrow>
   extractTextFromTextFile w file = Inr (sanitizeText raw)"
  by (simp add: extractTextFromTextFile_def)

text \<open>
  C2, as the code has it. When the plain-text read of a PDF succeeds and the text does
  not start with the PDF signature, the sanitized text is returned directly, with no OCR
  run, if it has more than 100 code units after trimming (101 or more). With 100 or
  fewer the OCR runs at least once, and if its first run succeeds the result is the
  enhanced OCR text. A direct text of exactly 100 code units goes to the OCR.
\<close>

theorem pdf_direct_text_threshold:
  assumes "readAsText w file = Inr raw" and "\<not> startsWith raw (js ''%PDF-'')"
  shows "(100 < length (trim (sanitizeText raw)) \<longrightarrow>
            extractTextFromPdf w file s = (Inr (sanitizeText raw), s)) \<and>
         (length (trim (sanitizeText raw)) \<le> 100 \<longrightarrow>
            ocr_calls s < ocr_calls (snd (extractTextFromPdf w file s)) \<and>
            (\<forall>t. recognize w (ocr_calls s) file = Inr t \<longrightarrow>
               extractTextFromPdf w file s =
                 enhanceOcrResultWithAi w t (s\<lparr>ocr_calls := ocr_calls s + 1\<rparr>)))"
proof (intro conjI impI allI)
  assume "100 < length (trim (sanitizeText raw))"
  moreover from this have "sanitizeText raw \<noteq> []" by (auto simp: trim_def)
  ultimately show "extractTextFromPdf w file s = (Inr (sanitizeText raw), s)"
    by (simp add: pdf_unfold textfile_direct [OF assms])
next
  assume short: "length (trim (sanitizeText raw)) \<le> 100"
  then have eq: "extractTextFromPdf w file s =
      (case fst (extractTextFromPdfWithOcr w file s) of
         Inr t \<Rightarrow> extractTextFromPdfWithOcr w file s
       | Inl err \<Rightarrow> pdf_inner_catch w file err (snd (extractTextFromPdfWithOcr w file s)))"
    by (simp add: pdf_unfold textfile_direct [OF assms])
  have "ocr_calls s < ocr_calls (snd (pdf_inner_catch w file err
            (snd (extractTextFromPdfWithOcr w file s))))" for err
    using inner_catch_ocr_calls [of "snd (extractTextFromPdfWithOcr w file s)" w "file" err]
    by (simp add: ocr_ocr_calls)
  then show "ocr_calls s < ocr_calls (snd (extractTextFromPdf w file s))"
    unfolding eq by (simp add: ocr_ocr_calls split: sum.splits)
  fix t
  assume "recognize w (ocr_calls s) file = Inr t"
  then have ocr: "extractTextFromPdfWithOcr w file s =
                  enhanceOcrResultWithAi w t (s\<lparr>ocr_calls := ocr_calls s + 1\<rparr>)"
    by (simp add: ocr_unfold)
  show "extractTextFromPdf w file s =
        enhanceOcrResultWithAi w t (s\<lparr>ocr_calls := ocr_calls s + 1\<rparr>)"
    unfolding eq ocr by (simp add: enhance_fst split: sum.splits)
qed

lemma letters_plain: "\<forall>c \<in> set (replicate n 0x61). \<not> is_control c \<and> \<not> is_whitespace c"
  using letter_a_plain by simp

lemma letters_sanitized: "n \<le> 100000 \<Longrightarrow> sanitizeText (replicate n 0x61) = replicate n 0x61"
  using letters_plain [of n] by (simp add: sanitizeText_plain)

lemma letters_trimmed: "trim (replicate n 0x61) = replicate n 0x61"
  by (rule trim_plain) (simp add: letter_a_plain)

lemma letters_not_pdf: "\<not> startsWith (replicate n 0x61) (js ''%PDF-'')"
  by (cases n) (simp_all add: startsWith_def js_def)

theorem pdf_direct_text_threshold_witness:
  "extractTextFromPdf (world_direct 101) scanned_pdf initial_state
     = (Inr (replicate 101 0x61), initial_state) \<and>
   ocr_calls initial_state
     < ocr_calls (snd (extractTextFromPdf (world_direct 100) scanned_pdf initial_state)) \<and>
   extractTextFromPdf (world_direct 100) scanned_pdf initial_state
     = enhanceOcrResultWithAi (world_direct 100) (js ''scan'')
         (initial_state\<lparr>ocr_calls := ocr_calls initial_state + 1\<rparr>)"
proof -
  have r: "readAsText (world_direct n) scanned_pdf = Inr (replicate n 0x61)" for n
    by (simp add: world_direct_def)
  have o: "recognize (world_direct 100) (ocr_calls initial_state) scanned_pdf = Inr (js ''scan'')"
    by (simp add: world_direct_def)
  have long: "100 < length (trim (sanitizeText (replicate 101 0x61)))"
    and short: "length (trim (sanitizeText (replicate 100 0x61))) \<le> 100"
    and same: "sanitizeText (replicate 101 0x61) = replicate 101 0x61"
    by (simp_all add: letters_sanitized letters_trimmed)
  from pdf_direct_text_threshold [OF r letters_not_pdf, of 101 initial_state] long
  have a: "extractTextFromPdf (world_direct 101) scanned_pdf initial_state
             = (Inr (replicate 101 0x61), initial_state)"
    unfolding same by blast
  from pdf_direct_text_threshold [OF r letters_not_pdf, of 100 initial_state] short o
  have b: "ocr_calls initial_state
             < ocr_calls (snd (extractTextFromPdf (world_direct 100) scanned_pdf initial_state)) \<and>
           extractTextFromPdf (world_direct 100) scanned_pdf initial_state
             = enhanceOcrResultWithAi (world_direct 100) (js ''scan'')
                 (initial_state\<lparr>ocr_calls := ocr_calls initial_state + 1\<rparr>)"
    by blast
  from a b show ?thesis by (rule conjI)
qed

text \<open>
  C2 as stated fails at exactly 100: a PDF whose direct text is 100 letters is sent to
  the OCR engine, and the text returned is the engine's, not the direct text.
\<close>

theorem pdf_exactly_100_counterexample:
  "length (replicate 100 (0x61 :: js_char)) = 100 \<and>
   readAsText (world_direct 100) scanned_pdf = Inr (replicate 100 0x61) \<and>
   extractTextFromPdf (world_direct 100) scanned_pdf initial_state
     = (Inr (js ''scan''), initial_state\<lparr>ocr_calls := 1, ai_calls := 1\<rparr>)"
proof -
  have "extractTextFromTextFile (world_direct 100) scanned_pdf = Inr (replicate 100 0x61)"
    using letters_not_pdf [of 100]
    by (simp add: extractTextFromTextFile_def world_direct_def letters_sanitized)
  then have "extractTextFromPdf (world_direct 100) scanned_pdf initial_state
     = (Inr (js ''scan''), initial_state\<lparr>ocr_calls := 1, ai_calls := 1\<rparr>)"
    unfolding extractTextFromPdf_def
    by (simp add: letters_trimmed extractTextFromPdfWithOcr_def enhanceOcrResultWithAi_def
        enhance_try_def world_direct_def silent_world_def initial_state_def sanitize_eval)
  then show ?thesis by (simp add: world_direct_def)
qed

text \<open>
  C1. A PDF that falls back to OCR should reach the store with the method \<^verbatim>\<open>ocr\<close>. In the
  code \<^verbatim>\<open>handleFileChange\<close> sets \<^verbatim>\<open>pdf_extraction\<close> before it calls \<^verbatim>\<open>extractTextFromPdf\<close>
  and nothing sets \<^verbatim>\<open>ocr\<close> afterwards: for a scanned PDF, read as binary data, whose text
  comes from one OCR run, the row handed to the store has the method \<^verbatim>\<open>pdf_extraction\<close>.
\<close>

theorem scanned_pdf_is_tagged_pdf_extraction:
  "fst (handleSubmit True True (handleFileChange world_scanned (Some scanned_pdf) initial_state))
     = Some \<lparr>resume_txt = js ''page1 page2 page3 page4 page5 page6 page7 page8'',
             text_extraction_method = ''pdf_extraction'', is_pdf = True\<rparr> \<and>
   ocr_calls (handleFileChange world_scanned (Some scanned_pdf) initial_state) = 1"
  by (simp add: pipeline_eval fixtures sanitize_eval)

section \<open>The upload handler\<close>

lemma handleFileChange_accepted:
  "file_size file \<le> 10 * 1024 * 1024 \<Longrightarrow>
   handleFileChange w (Some file) s =
     (case fst (dispatch w file (s\<lparr>isPdfFile := isPdf file, resumeFile := Some file\<rparr>)) of
        Inr t \<Rightarrow>
          (snd (dispatch w file (s\<lparr>isPdfFile := isPdf file, resumeFile := Some file\<rparr>)))
            \<lparr>resumeText := t\<rparr>
      | Inl e \<Rightarrow>
          (snd (dispatch w file (s\<lparr>isPdfFile := isPdf file, resumeFile := Some file\<rparr>)))
            \<lparr>resumeText := fallbackText w file, extractionMethod := ''failed''\<rparr>)"
  by (cases "dispatch w file (s\<lparr>isPdfFile := isPdf file, resumeFile := Some file\<rparr>)")
     (simp add: handleFileChange_def split: sum.splits)

lemma handleFileChange_refused:
  "10 * 1024 * 1024 < file_size file \<Longrightarrow> handleFileChange w (Some file) s = s"
  by (simp add: handleFileChange_def)

lemma fallbackText_mentions:
  "sublist (file_name file) (fallbackText w file) \<and>
   sublist (show_nat (round_kb (file_size file))) (fallbackText w file) \<and>
   sublist (toLocaleString w (lastModified file)) (fallbackText w file)"
proof (intro conjI)
  show "sublist (file_name file) (fallbackText w file)"
    unfolding fallbackText_def by (rule sublist_appendI)
  have "\<exists>ps ss. fallbackText w file = ps @ show_nat (round_kb (file_size file)) @ ss"
    unfolding fallbackText_def
    by (intro exI [of _ "js ''Could not extract text from '' @ file_name file @ js '' ('' @
          (if file_type file \<noteq> [] then file_type file else js ''unknown type'') @ js '')'' @
          [0x0A] @ js ''        '' @ [0x0A] @ js ''File size: ''"] exI) simp
  then show "sublist (show_nat (round_kb (file_size file))) (fallbackText w file)"
    by (simp add: sublist_def)
  have "\<exists>ps ss. fallbackText w file = ps @ toLocaleString w (lastModified file) @ ss"
    unfolding fallbackText_def
    by (intro exI [of _ "js ''Could not extract text from '' @ file_name file @ js '' ('' @
          (if file_type file \<noteq> [] then file_type file else js ''unknown type'') @ js '')'' @
          [0x0A] @ js ''        '' @ [0x0A] @ js ''File size: '' @
          show_nat (round_kb (file_size file)) @ js '' KB'' @ [0x0A] @
          js ''Last modified: ''"] exI) simp
  then show "sublist (toLocaleString w (lastModified file)) (fallbackText w file)"
    by (simp add: sublist_def)
qed

text \<open>\<open>show_nat\<close> writes a number in decimal digits.\<close>

lemma digit_unat: "d < 10 \<Longrightarrow> unat (0x30 + of_nat d :: js_char) = 48 + d"
proof -
  assume d: "d < 10"
  have "(0x30 + of_nat d :: js_char) = of_nat (48 + d)" by simp
  then have "unat (0x30 + of_nat d :: js_char) = (48 + d) mod 2 ^ 16"
    by (simp only: unat_of_nat) simp
  with d show ?thesis by simp
qed

lemma show_nat_decimal: "decimal_value (show_nat n) = n"
proof (induction n rule: show_nat.induct)
  case (1 n)
  show ?case
  proof (cases "n < 10")
    case True
    then show ?thesis
      by (simp add: show_nat.simps [of n] decimal_value_def digit_unat)
  next
    case False
    have d: "n mod 10 < 10" by simp
    from False 1 have ih: "decimal_value (show_nat (n div 10)) = n div 10" by simp
    from False have "decimal_value (show_nat n) =
        10 * decimal_value (show_nat (n div 10)) + (unat (0x30 + of_nat (n mod 10) :: js_char) - 48)"
      by (simp add: show_nat.simps [of n] decimal_value_def)
    also have "\<dots> = 10 * (n div 10) + n mod 10"
      by (simp only: ih digit_unat [OF d])
    finally show ?thesis by simp
  qed
qed

lemma show_nat_digits: "c \<in> set (show_nat n) \<Longrightarrow> 0x30 \<le> c \<and> c \<le> 0x39"
proof (induction n arbitrary: c rule: show_nat.induct)
  case (1 n)
  have digit: "0x30 \<le> (0x30 + of_nat d :: js_char) \<and> (0x30 + of_nat d :: js_char) \<le> 0x39"
    if "d < 10" for d
  proof -
    from that have "unat (0x30 + of_nat d :: js_char) = 48 + d" by (rule digit_unat)
    with that show ?thesis by (simp add: word_le_nat_alt)
  qed
  show ?case
  proof (cases "n < 10")
    case True
    with 1(2) digit [of n] show ?thesis by (simp add: show_nat.simps [of n])
  next
    case False
    have "n mod 10 < 10" by simp
    with False 1 digit [of "n mod 10"] show ?thesis
      by (auto simp: show_nat.simps [of n])
  qed
qed

text \<open>
  The size line of the placeholder, with \<^verbatim>\<open>Math.round(file.size / 1024)\<close> written out on
  the number of bytes.
\<close>

lemma fallbackText_size_line:
  "sublist (js ''File size: '' @ show_nat ((file_size file + 512) div 1024) @ js '' KB'')
     (fallbackText w file)"
proof -
  have "\<exists>ps ss. fallbackText w file =
          ps @ (js ''File size: '' @ show_nat ((file_size file + 512) div 1024) @ js '' KB'') @ ss"
    unfolding fallbackText_def round_kb_def
    by (intro exI [of _ "js ''Could not extract text from '' @ file_name file @ js '' ('' @
          (if file_type file \<noteq> [] then file_type file else js ''unknown type'') @ js '')'' @
          [0x0A] @ js ''        '' @ [0x0A]"] exI) simp
  then show ?thesis by (simp only: sublist_def)
qed

text \<open>
  C5. When the extractor chosen for an accepted file (10 MB at most) ends with an error,
  \<^verbatim>\<open>handleFileChange\<close> still ends normally: the method is \<^verbatim>\<open>failed\<close> and the text is the
  placeholder, which contains the name of the file, the line \<^verbatim>\<open>File size: N KB\<close> where
  \<open>N\<close> is the size in bytes divided by 1024 and rounded to the nearest integer (halves
  up), that is \<open>(size + 512) div 1024\<close>, in decimal digits, and the last-modified time
  as the locale prints it. A submission that follows is not blocked:
  the row handed to the store has the method \<^verbatim>\<open>failed\<close> and the sanitized placeholder.
\<close>

theorem failed_extraction_yields_placeholder:
  assumes "file_size file \<le> 10 * 1024 * 1024"
    and "fst (dispatch w file (s\<lparr>isPdfFile := isPdf file, resumeFile := Some file\<rparr>)) = Inl err"
  shows "extractionMethod (handleFileChange w (Some file) s) = ''failed'' \<and>
         resumeText (handleFileChange w (Some file) s) = fallbackText w file \<and>
         sublist (file_name file) (fallbackText w file) \<and>
         sublist (js ''File size: '' @ show_nat ((file_size file + 512) div 1024) @ js '' KB'')
           (fallbackText w file) \<and>
         decimal_value (show_nat ((file_size file + 512) div 1024)) =
           (file_size file + 512) div 1024 \<and>
         sublist (toLocaleString w (lastModified file)) (fallbackText w file) \<and>
         fst (handleSubmit True insert_ok (handleFileChange w (Some file) s)) =
           Some \<lparr>resume_txt = sanitizeText (fallbackText w file),
                  text_extraction_method = ''failed'', is_pdf = isPdf file\<rparr>"
proof -
  let ?d = "dispatch w file (s\<lparr>isPdfFile := isPdf file, resumeFile := Some file\<rparr>)"
  have after: "handleFileChange w (Some file) s =
      (snd ?d)\<lparr>resumeText := fallbackText w file, extractionMethod := ''failed''\<rparr>"
    by (simp add: handleFileChange_accepted [OF assms(1)] assms(2))
  have ui: "resumeFile (snd ?d) = Some file" "isPdfFile (snd ?d) = isPdf file"
    using dispatch_ui [of w "file" "s\<lparr>isPdfFile := isPdf file, resumeFile := Some file\<rparr>"]
    by simp_all
  have "fst (handleSubmit True insert_ok (handleFileChange w (Some file) s)) =
           Some \<lparr>resume_txt = sanitizeText (fallbackText w file),
                  text_extraction_method = ''failed'', is_pdf = isPdf file\<rparr>"
    unfolding after by (simp add: handleSubmit_def ui)
  with fallbackText_mentions [of "file" w] fallbackText_size_line [of "file" w] show ?thesis
    by (simp add: after show_nat_decimal)
qed

lemma show_nat_20: "show_nat 20 = js ''20''"
  by (simp add: show_nat.simps js_def)

text \<open>
  A Word document that the converter rejects (no ZIP directory), with the placeholder
  written out.
\<close>

theorem failed_extraction_yields_placeholder_witness:
  "file_size corrupt_docx \<le> 10 * 1024 * 1024 \<and>
   fst (dispatch world_corrupt_docx corrupt_docx
          (initial_state\<lparr>isPdfFile := isPdf corrupt_docx, resumeFile := Some corrupt_docx\<rparr>))
     = Inl (Error ''Can not find end of central directory'') \<and>
   extractionMethod (handleFileChange world_corrupt_docx (Some corrupt_docx) initial_state)
     = ''failed'' \<and>
   resumeText (handleFileChange world_corrupt_docx (Some corrupt_docx) initial_state)
     = js ''Could not extract text from cv.docx (application/vnd.openxmlformats-officedocument.wordprocessingml.document)''
       @ [0x0A] @ js ''        '' @ [0x0A] @ js ''File size: 20 KB'' @ [0x0A]
       @ js ''Last modified: 1/1/1970, 12:00:00 AM'' @ [0x0A, 0x0A]
       @ js ''[The file content could not be automatically extracted. Please try a different file format (like .txt) or ensure the file is not corrupted or password protected.]''"
proof -
  have size: "file_size corrupt_docx \<le> 10 * 1024 * 1024"
    by (simp add: corrupt_docx_def)
  have thrown: "fst (dispatch world_corrupt_docx corrupt_docx
          (initial_state\<lparr>isPdfFile := isPdf corrupt_docx, resumeFile := Some corrupt_docx\<rparr>))
     = Inl (Error ''Can not find end of central directory'')"
    by (simp add: pipeline_eval fixtures js_def)
  have shown: "fallbackText world_corrupt_docx corrupt_docx
     = js ''Could not extract text from cv.docx (application/vnd.openxmlformats-officedocument.wordprocessingml.document)''
       @ [0x0A] @ js ''        '' @ [0x0A] @ js ''File size: 20 KB'' @ [0x0A]
       @ js ''Last modified: 1/1/1970, 12:00:00 AM'' @ [0x0A, 0x0A]
       @ js ''[The file content could not be automatically extracted. Please try a different file format (like .txt) or ensure the file is not corrupted or password protected.]''"
    by (simp add: fallbackText_def fixtures round_kb_def show_nat_20) (simp add: js_def)
  from failed_extraction_yields_placeholder [OF size thrown, of True] size thrown
  show ?thesis unfolding shown by blast
qed

section \<open>The row handed to the store\<close>

text \<open>
  Whenever a file is held, the method is one of the five values the handler sets.
\<close>

lemma reachable_method:
  "reachable s \<Longrightarrow> resumeFile s \<noteq> None \<Longrightarrow>
   extractionMethod s \<in>
     {''pdf_extraction'', ''word_document'', ''text_file'', ''unknown_file'', ''failed''}"
proof (induction rule: reachable.induct)
  case start
  then show ?case by (simp add: initial_state_def)
next
  case (upload s w selected)
  show ?case
  proof (cases selected)
    case None
    with upload show ?thesis by (simp add: handleFileChange_def)
  next
    case (Some f)
    show ?thesis
    proof (cases "file_size f \<le> 10 * 1024 * 1024")
      case True
      let ?d = "dispatch w f (s\<lparr>isPdfFile := isPdf f, resumeFile := Some f\<rparr>)"
      from dispatch_method [of w f "s\<lparr>isPdfFile := isPdf f, resumeFile := Some f\<rparr>"]
      show ?thesis
        unfolding Some handleFileChange_accepted [OF True]
        by (cases "fst ?d") auto
    next
      case False
      then have "handleFileChange w selected s = s"
        by (simp add: Some handleFileChange_refused)
      with upload show ?thesis by simp
    qed
  qed
next
  case (submit s checks_pass insert_ok)
  then show ?case
    by (auto simp: handleSubmit_def split: option.splits if_splits)
qed

text \<open>
  C9, as the code has it. After any sequence of uploads and submissions, the method in a
  row handed to the store is one of \<^verbatim>\<open>text_file\<close>, \<^verbatim>\<open>word_document\<close>, \<^verbatim>\<open>pdf_extraction\<close>,
  \<^verbatim>\<open>ocr\<close>, \<^verbatim>\<open>failed\<close> and \<^verbatim>\<open>unknown_file\<close>, the sixth being the tag of a file of
  unrecognized type read by the plain-text fallback.
\<close>

theorem persisted_method_tag_values:
  assumes "reachable s" and "fst (handleSubmit checks_pass insert_ok s) = Some row"
  shows "text_extraction_method row \<in>
           {''text_file'', ''word_document'', ''pdf_extraction'', ''ocr'', ''failed'',
            ''unknown_file''}"
proof -
  from assms(2) have present: "resumeFile s \<noteq> None"
    and row: "text_extraction_method row =
                (if extractionMethod s \<noteq> [] then extractionMethod s else ''unknown'')"
    by (auto simp: handleSubmit_def split: option.splits if_splits)
  from reachable_method [OF assms(1) present] row show ?thesis by auto
qed

theorem persisted_method_tag_values_witness:
  "reachable (handleFileChange world_rtf (Some rtf_file) initial_state) \<and>
   fst (handleSubmit True True (handleFileChange world_rtf (Some rtf_file) initial_state))
     = Some \<lparr>resume_txt = js ''Jane Doe'', text_extraction_method = ''unknown_file'',
             is_pdf = False\<rparr> \<and>
   text_extraction_method \<lparr>resume_txt = js ''Jane Doe'',
       text_extraction_method = ''unknown_file'', is_pdf = False\<rparr>
     \<in> {''text_file'', ''word_document'', ''pdf_extraction'', ''ocr'', ''failed'',
        ''unknown_file''}"
proof -
  have r: "reachable (handleFileChange world_rtf (Some rtf_file) initial_state)"
    by (rule reachable.upload [OF reachable.start])
  have row: "fst (handleSubmit True True
                    (handleFileChange world_rtf (Some rtf_file) initial_state))
     = Some \<lparr>resume_txt = js ''Jane Doe'', text_extraction_method = ''unknown_file'',
             is_pdf = False\<rparr>"
    by (simp add: pipeline_eval fixtures sanitize_eval)
  from persisted_method_tag_values [OF r row] r row show ?thesis by blast
qed

text \<open>
  C9 as stated fails on a file of unrecognized type: an RTF file read as plain text
  reaches the store with the method \<^verbatim>\<open>unknown_file\<close>, which is none of the five values.
\<close>

theorem unknown_type_counterexample:
  "fst (handleSubmit True True (handleFileChange world_rtf (Some rtf_file) initial_state))
     = Some \<lparr>resume_txt = js ''Jane Doe'', text_extraction_method = ''unknown_file'',
             is_pdf = False\<rparr> \<and>
   ''unknown_file'' \<notin> {''text_file'', ''word_document'', ''pdf_extraction'', ''ocr'', ''failed''}"
  by (simp add: pipeline_eval fixtures sanitize_eval)

end
